theory Spec2Isabelle
  imports Complex_Main
begin

section \<open>Time-synchronised radar playback (BRadar, lib/BRadar/plotutils.py)\<close>

text \<open>
  The development embeds class \<open>RadarAnim\<close> of \<open>plotutils.py\<close>: the construction of a
  playback session (\<open>__init__\<close>, with the generation of the time markers) and the
  per-tick scheduler (\<open>nextframe\<close>, \<open>_advance_anim\<close>).

  Conventions of the embedding.
  \<^item> A \<open>datetime\<close> is an integer number of microseconds since the epoch, a
    \<open>timedelta\<close> an integer number of microseconds. The range limits of Python's
    \<open>datetime\<close> (years 1 to 9999) are not modelled.
  \<^item> The program is Python 2 (its \<open>print\<close> statements). Floating-point numbers
    (\<open>sps\<close>, \<open>fps\<close>, the timer interval) are idealised as exact rationals; the
    rounding of \<open>timedelta(0, x)\<close> to whole microseconds is kept.
  \<^item> A raised exception is a value \<open>Inl e\<close>; a \<open>while\<close> loop that never leaves is the
    value \<open>None\<close> of the enclosing option.
  \<^item> Each \<open>print\<close> statement appends one line to the field \<open>out\<close> of the session.
  \<^item> The drawing calls of matplotlib are outside the embedding; of
    \<open>_advance_anim\<close> the model keeps the frame pulled from the cache, which is the
    frame every image shows afterwards (field \<open>shown\<close>).
\<close>

subsection \<open>Values and exceptions\<close>

type_synonym datetime = int

text \<open>
  The exceptions of the embedding. The first three are Python's own; \<open>ExhaustedError\<close>
  is what the frame cache raises at its end. \<open>ConfigError\<close> is the class the
  specification names for invalid session parameters; no statement of \<open>plotutils.py\<close>
  raises it.
\<close>

datatype error = TypeError | IndexError | ZeroDivisionError | ExhaustedError | ConfigError

text \<open>
  The optional entry \<open>'scan_time'\<close> of a frame dictionary is a \<open>datetime\<close> object or a
  number of seconds since the UNIX epoch (an integer in the model).
\<close>

datatype scan_val = Datetime datetime | Epoch int

text \<open>
  A frame as the loader returns it. \<open>vals\<close> stands for the numeric grids
  (\<open>'vals'\<close>, \<open>'lats'\<close>, \<open>'lons'\<close>), which the scheduler only hands to the drawing calls.
\<close>

record frame =
  vals :: nat
  scan_time :: "scan_val option"

text \<open>
  Python 2 ordering of two values each of which is \<open>None\<close> or a \<open>datetime\<close>: two
  datetimes are ordered by time; \<open>None\<close> against \<open>None\<close> falls back to the default
  comparison of an object with itself (equal, so \<open><\<close> and \<open>>\<close> are false and \<open><=\<close>
  and \<open>>=\<close> are true); a datetime against \<open>None\<close> raises \<open>TypeError\<close> in either
  order.
\<close>

fun py_lt :: "datetime option \<Rightarrow> datetime option \<Rightarrow> error + bool" where
  "py_lt (Some a) (Some b) = Inr (a < b)"
| "py_lt None None = Inr False"
| "py_lt _ _ = Inl TypeError"

fun py_le :: "datetime option \<Rightarrow> datetime option \<Rightarrow> error + bool" where
  "py_le (Some a) (Some b) = Inr (a \<le> b)"
| "py_le None None = Inr True"
| "py_le _ _ = Inl TypeError"

fun py_gt :: "datetime option \<Rightarrow> datetime option \<Rightarrow> error + bool" where
  "py_gt (Some a) (Some b) = Inr (b < a)"
| "py_gt None None = Inr False"
| "py_gt _ _ = Inl TypeError"

fun py_ge :: "datetime option \<Rightarrow> datetime option \<Rightarrow> error + bool" where
  "py_ge (Some a) (Some b) = Inr (b \<le> a)"
| "py_ge None None = Inr True"
| "py_ge _ _ = Inl TypeError"

text \<open>
  A chained comparison \<open>a < b <= c\<close> is \<open>a < b and b <= c\<close>: the second comparison is
  evaluated only when the first is true.
\<close>

definition chain_lt_le :: "datetime option \<Rightarrow> datetime option \<Rightarrow> datetime option \<Rightarrow> error + bool" where
  "chain_lt_le a b c =
     (case py_lt a b of Inl e \<Rightarrow> Inl e | Inr r \<Rightarrow> if r then py_le b c else Inr False)"

definition chain_lt_lt :: "datetime option \<Rightarrow> datetime option \<Rightarrow> datetime option \<Rightarrow> error + bool" where
  "chain_lt_lt a b c =
     (case py_lt a b of Inl e \<Rightarrow> Inl e | Inr r \<Rightarrow> if r then py_lt b c else Inr False)"

text \<open>True division of two numbers; a zero divisor raises \<open>ZeroDivisionError\<close>.\<close>

definition py_div :: "rat \<Rightarrow> rat \<Rightarrow> error + rat" where
  "py_div a b = (if b = 0 then Inl ZeroDivisionError else Inr (a / b))"

text \<open>
  \<open>timedelta(0, seconds)\<close>: the duration in microseconds, the fraction of a
  microsecond rounded to the nearest one, a half away from zero.
\<close>

definition timedelta :: "rat \<Rightarrow> int" where
  "timedelta seconds =
     (let us = seconds * 1000000
      in if 0 \<le> us then \<lfloor>us + 1 / 2\<rfloor> else \<lceil>us - 1 / 2\<rceil>)"

text \<open>\<open>d.total_seconds()\<close> of a duration of \<open>d\<close> microseconds.\<close>

definition total_seconds :: "int \<Rightarrow> rat" where
  "total_seconds d = of_int d / 1000000"

text \<open>Sequencing of computations that may raise (\<open>Inl\<close>) or not return (\<open>None\<close>).\<close>

definition bnd :: "(error + 'a) option \<Rightarrow> ('a \<Rightarrow> (error + 'b) option) \<Rightarrow> (error + 'b) option" where
  "bnd m f = (case m of None \<Rightarrow> None | Some (Inl e) \<Rightarrow> Some (Inl e) | Some (Inr x) \<Rightarrow> f x)"

subsection \<open>The frame cache\<close>

text \<open>
  Modelled from the spec: class \<open>RadarCache\<close> of module \<open>BRadar.io\<close> is not among the
  sources. The cache is a cursor over the ordered sequence of frames (the loader
  applied to the file names), with a window width and the wraparound flag (spec 4.2,
  6). The cursor is \<open>-1\<close> while the cache is new, before its first advance, and a
  position \<open>0, 1, ...\<close> within the sequence afterwards.
\<close>

record cache =
  frames :: "frame list"
  cachewidth :: nat
  cyclable :: bool
  cursor :: int

text \<open>
  Modelled from the spec: the constructor of \<open>RadarCache\<close>. A new cache stands before
  its first frame: the first advance delivers the first frame (spec 4.3: the first
  tick performs an initial advance that bootstraps the first rendered frame; spec 8: N
  ticks over a non-cyclable cache of N frames are N advances, and tick 0 of the
  end-to-end scenario renders the first frame).
\<close>

definition RadarCache :: "frame list \<Rightarrow> nat \<Rightarrow> bool \<Rightarrow> cache" where
  "RadarCache files w cyc = \<lparr>frames = files, cachewidth = w, cyclable = cyc, cursor = -1\<rparr>"

text \<open>
  Modelled from the spec: \<open>RadarCache.curr\<close>, missing from the sources, is
  \<open>current()\<close> of spec 4.2: the frame at the cursor; the cursor stays. A new cache
  shows its first frame: \<open>startTime\<close>, which \<open>RadarAnim.__init__\<close> reads from the
  current frame of the new cache, is the scan time of the first frame (spec 3). The
  spec gives no behaviour when there is no frame to show (an empty sequence); the
  model raises \<open>IndexError\<close> there.
\<close>

definition curr :: "cache \<Rightarrow> error + frame" where
  "curr c =
     (if frames c = [] then Inl IndexError
      else if cursor c = -1 then Inr (frames c ! 0)
      else if 0 \<le> cursor c \<and> cursor c < int (length (frames c))
        then Inr (frames c ! nat (cursor c))
      else Inl IndexError)"

text \<open>
  Modelled from the spec: \<open>RadarCache.peek_next\<close>, missing from the sources, is
  \<open>peek_next()\<close> of spec 4.2: the frame one position ahead of the cursor, which does not
  move (for a new cache, the first frame). On the last position a cyclable cache looks
  at the first frame; where the spec names no frame the model raises \<open>IndexError\<close>.
\<close>

definition peek_next :: "cache \<Rightarrow> error + frame" where
  "peek_next c =
     (if -1 \<le> cursor c \<and> cursor c + 1 < int (length (frames c))
        then Inr (frames c ! nat (cursor c + 1))
      else if cyclable c \<and> frames c \<noteq> [] then Inr (frames c ! 0)
      else Inl IndexError)"

text \<open>
  Modelled from the spec: \<open>RadarCache.peek_prev\<close>, missing from the sources, is
  \<open>peek_prev()\<close> of spec 4.2: the frame one position behind the cursor, which does not
  move. Behind the first frame a cyclable cache looks at the last frame: \<open>endTime\<close>,
  which \<open>RadarAnim.__init__\<close> reads from \<open>peek_prev()\<close> of the new cache, is the scan
  time of the last frame (spec 3).
\<close>

definition peek_prev :: "cache \<Rightarrow> error + frame" where
  "peek_prev c =
     (if 0 < cursor c \<and> cursor c - 1 < int (length (frames c))
        then Inr (frames c ! nat (cursor c - 1))
      else if (cursor c = 0 \<or> cursor c = -1) \<and> cyclable c \<and> frames c \<noteq> []
        then Inr (last (frames c))
      else Inl IndexError)"

text \<open>
  Modelled from the spec: \<open>RadarCache.next\<close>, missing from the sources, is
  \<open>advance()\<close> of spec 4.2: it moves the cursor forward by one and returns the new
  current frame. Advancing past the last frame wraps to the first when the cache is
  cyclable and fails with \<open>ExhaustedError\<close> otherwise.
\<close>

definition cache_next :: "cache \<Rightarrow> error + frame \<times> cache" where
  "cache_next c =
     (if -1 \<le> cursor c \<and> cursor c + 1 < int (length (frames c))
        then Inr (frames c ! nat (cursor c + 1), c\<lparr>cursor := cursor c + 1\<rparr>)
      else if cyclable c \<and> frames c \<noteq> [] then Inr (frames c ! 0, c\<lparr>cursor := 0\<rparr>)
      else Inl ExhaustedError)"

text \<open>
  Modelled from the spec: \<open>RadarCache.__len__\<close>, missing from the sources, is
  \<open>length()\<close> of spec 4.2: the number of addressable frames.
\<close>

definition cache_len :: "cache \<Rightarrow> nat" where
  "cache_len c = length (frames c)"

subsection \<open>The session: class RadarAnim\<close>

text \<open>One line of standard output, as the three \<open>print\<close> statements write them.\<close>

datatype line = CurrTime "datetime option" | Skipping "datetime option" | Dropped "datetime option"

text \<open>What \<open>nextframe\<close> returns: the list of images (a render signal) or \<open>None\<close>.\<close>

datatype ret = Ims | NoRender

record anim =
  rd :: cache
  startTime :: "datetime option"
  endTime :: "datetime option"
  robust :: bool
  sps :: "rat option"
  fps :: rat
  interval :: rat
  time_markers :: "datetime option list option"
  save_count :: nat
  shown :: "frame option"
  out :: "line list"

text \<open>\<open>_get_time\<close>: the scan time of a frame dictionary as a \<open>datetime\<close>, or \<open>None\<close>.\<close>

definition get_time :: "frame \<Rightarrow> datetime option" where
  "get_time data =
     (case scan_time data of
        None \<Rightarrow> None
      | Some (Datetime d) \<Rightarrow> Some d
      | Some (Epoch s) \<Rightarrow> Some (s * 1000000))"

text \<open>The properties \<open>curr_time\<close>, \<open>prev_time\<close> and \<open>next_time\<close>.\<close>

definition curr_time :: "cache \<Rightarrow> error + datetime option" where
  "curr_time c = (case curr c of Inl e \<Rightarrow> Inl e | Inr data \<Rightarrow> Inr (get_time data))"

definition prev_time :: "cache \<Rightarrow> error + datetime option" where
  "prev_time c = (case peek_prev c of Inl e \<Rightarrow> Inl e | Inr data \<Rightarrow> Inr (get_time data))"

definition next_time :: "cache \<Rightarrow> error + datetime option" where
  "next_time c = (case peek_next c of Inl e \<Rightarrow> Inl e | Inr data \<Rightarrow> Inr (get_time data))"

text \<open>
  The loop of \<open>__init__\<close> that generates the markers:
  \<^verbatim>\<open>while currTime < self.endTime : currTime += timestep; self.time_markers.append(currTime)\<close>.
  Adding a \<open>timedelta\<close> to \<open>None\<close> raises \<open>TypeError\<close>.
\<close>

partial_function (option) marker_loop ::
  "int \<Rightarrow> datetime option \<Rightarrow> datetime option \<Rightarrow> datetime option list
     \<Rightarrow> (error + datetime option list) option" where
  "marker_loop timestep endT currTime markers =
     (case py_lt currTime endT of
        Inl e \<Rightarrow> Some (Inl e)
      | Inr go \<Rightarrow>
          if go then
            (case currTime of
               None \<Rightarrow> Some (Inl TypeError)
             | Some t \<Rightarrow> marker_loop timestep endT (Some (t + timestep))
                          (markers @ [Some (t + timestep)]))
          else Some (Inr markers))"

text \<open>
  The rate-derived markers (lines 196 to 202 of \<open>__init__\<close>): the time step is
  \<open>timedelta(0, sps / fps)\<close>, the first marker is \<open>startTime\<close>.
\<close>

definition rate_markers ::
  "rat \<Rightarrow> rat \<Rightarrow> datetime option \<Rightarrow> datetime option \<Rightarrow> (error + datetime option list) option" where
  "rate_markers s f startT endT =
     bnd (Some (py_div s f)) (\<lambda>q. marker_loop (timedelta q) endT startT [startT])"

text \<open>
  \<open>RadarAnim.__init__(fig, files, load_func, robust, sps, time_markers, **kwargs)\<close>.
  \<open>files\<close> are the frames the loader yields for the file names; \<open>ival\<close> is the
  interval in milliseconds of the timer that \<open>FuncAnimation.__init__\<close> sets up from
  \<open>kwargs\<close>. The explicit markers are \<open>datetime\<close> objects.
\<close>

definition RadarAnim_init ::
  "frame list \<Rightarrow> bool \<Rightarrow> rat option \<Rightarrow> datetime list option \<Rightarrow> rat \<Rightarrow> (error + anim) option" where
  "RadarAnim_init files rob sp markers ival =
     (let c = RadarCache files 3 True in
      bnd (Some (curr_time c)) (\<lambda>startT.
      bnd (Some (prev_time c)) (\<lambda>endT.
        case markers of
          None \<Rightarrow>
            bnd (Some (py_div 1000 ival)) (\<lambda>f.
              case sp of
                Some s \<Rightarrow>
                  bnd (rate_markers s f startT endT) (\<lambda>ms.
                    Some (Inr \<lparr>rd = c, startTime = startT, endTime = endT, robust = rob,
                               sps = sp, fps = f, interval = ival, time_markers = Some ms,
                               save_count = length ms, shown = None, out = []\<rparr>))
              | None \<Rightarrow>
                  Some (Inr \<lparr>rd = c, startTime = startT, endTime = endT, robust = rob,
                             sps = sp, fps = f, interval = ival, time_markers = None,
                             save_count = cache_len c, shown = None, out = []\<rparr>))
        | Some tm \<Rightarrow>
            if tm = [] then Some (Inl IndexError)
            else
              (case sp of
                 None \<Rightarrow> Some (Inl TypeError)
               | Some s \<Rightarrow>
                   bnd (Some (py_div (total_seconds (last tm - hd tm)) s)) (\<lambda>d.
                   bnd (Some (py_div (of_nat (length tm) - 1) d)) (\<lambda>f.
                   bnd (Some (py_div 1000 f)) (\<lambda>iv.
                     Some (Inr \<lparr>rd = c, startTime = startT, endTime = endT, robust = rob,
                                sps = sp, fps = f, interval = iv,
                                time_markers = Some (map Some tm),
                                save_count = length tm, shown = None, out = []\<rparr>))))))))"

text \<open>
  \<open>_advance_anim\<close>: pulls the next frame from the cache (\<open>next(self._rd)\<close>) and draws
  it on every registered image, in place or rebuilt according to \<open>robust\<close>.
\<close>

definition advance_anim :: "anim \<Rightarrow> error + anim" where
  "advance_anim a =
     (case cache_next (rd a) of
        Inl e \<Rightarrow> Inl e
      | Inr (data, c) \<Rightarrow> Inr (a\<lparr>rd := c, shown := Some data\<rparr>))"

text \<open>
  One pass of a catch-up loop body: \<open>self._rd.next()\<close> followed by a \<open>print\<close> of the
  new current time.
\<close>

definition skip_step :: "(datetime option \<Rightarrow> line) \<Rightarrow> anim \<Rightarrow> error + anim" where
  "skip_step tag a =
     (case cache_next (rd a) of
        Inl e \<Rightarrow> Inl e
      | Inr (data, c) \<Rightarrow>
          (case curr_time c of
             Inl e \<Rightarrow> Inl e
           | Inr t \<Rightarrow> Inr (a\<lparr>rd := c, out := out a @ [tag t]\<rparr>)))"

text \<open>The guard \<open>self.startTime < self.curr_time <= self.endTime\<close> of the cycling loop.\<close>

definition cycle_cond :: "anim \<Rightarrow> error + bool" where
  "cycle_cond a =
     (case curr_time (rd a) of
        Inl e \<Rightarrow> Inl e
      | Inr t \<Rightarrow> chain_lt_le (startTime a) t (endTime a))"

text \<open>
  The cycling loop of \<open>nextframe\<close> (lines 310 to 312):
  \<^verbatim>\<open>while self.startTime < self.curr_time <= self.endTime : self._rd.next(); print ...\<close>
\<close>

partial_function (option) cycle_loop :: "anim \<Rightarrow> (error + anim) option" where
  "cycle_loop a =
     (case cycle_cond a of
        Inl e \<Rightarrow> Some (Inl e)
      | Inr go \<Rightarrow>
          if go then
            (case skip_step Skipping a of
               Inl e \<Rightarrow> Some (Inl e)
             | Inr a' \<Rightarrow> cycle_loop a')
          else Some (Inr a))"

text \<open>The guard \<open>self.next_time < frametime < self.endTime\<close> of the dropping loop.\<close>

definition drop_cond :: "datetime option \<Rightarrow> anim \<Rightarrow> error + bool" where
  "drop_cond frametime a =
     (case next_time (rd a) of
        Inl e \<Rightarrow> Inl e
      | Inr t \<Rightarrow> chain_lt_lt t frametime (endTime a))"

text \<open>
  The dropping loop of \<open>nextframe\<close> (lines 315 to 318):
  \<^verbatim>\<open>while self.next_time < frametime < self.endTime : self._rd.next(); print ...\<close>
\<close>

partial_function (option) drop_loop :: "datetime option \<Rightarrow> anim \<Rightarrow> (error + anim) option" where
  "drop_loop frametime a =
     (case drop_cond frametime a of
        Inl e \<Rightarrow> Some (Inl e)
      | Inr go \<Rightarrow>
          if go then
            (case skip_step Dropped a of
               Inl e \<Rightarrow> Some (Inl e)
             | Inr a' \<Rightarrow> drop_loop frametime a')
          else Some (Inr a))"

text \<open>
  \<open>nextframe(frameindex)\<close>, the handler of one tick. The frame indices come from
  \<open>itertools.count\<close> (\<open>__init__\<close> removes \<open>frames\<close> from \<open>kwargs\<close>), so they are
  natural numbers. A zero \<open>save_count\<close> makes \<open>%\<close> raise \<open>ZeroDivisionError\<close>, an index
  beyond the marker list raises \<open>IndexError\<close>.
\<close>

definition nextframe :: "anim \<Rightarrow> nat \<Rightarrow> (error + ret \<times> anim) option" where
  "nextframe a frameindex =
     (case time_markers a of
        None \<Rightarrow>
          bnd (Some (advance_anim a)) (\<lambda>a1.
          bnd (Some (curr_time (rd a1))) (\<lambda>t.
            Some (Inr (Ims, a1\<lparr>out := out a1 @ [CurrTime t]\<rparr>))))
      | Some ms \<Rightarrow>
          if save_count a = 0 then Some (Inl ZeroDivisionError)
          else if length ms \<le> frameindex mod save_count a then Some (Inl IndexError)
          else
            (let frametime = ms ! (frameindex mod save_count a) in
             bnd (Some (py_gt frametime (endTime a))) (\<lambda>over.
               if over then Some (Inr (NoRender, a))
               else
                 bnd (if frameindex mod save_count a = 0 \<and> 0 < frameindex
                      then cycle_loop a else Some (Inr a)) (\<lambda>a1.
                 bnd (Some (curr_time (rd a1))) (\<lambda>ct.
                 bnd (Some (py_ge frametime ct)) (\<lambda>due.
                   if due then
                     bnd (drop_loop frametime a1) (\<lambda>a2.
                     bnd (Some (curr_time (rd a2))) (\<lambda>t.
                     bnd (Some (advance_anim (a2\<lparr>out := out a2 @ [CurrTime t]\<rparr>))) (\<lambda>a3.
                       Some (Inr (Ims, a3)))))
                   else Some (Inr (NoRender, a1))))))))"

text \<open>
  The driver: the animation timer calls \<open>nextframe\<close> once per tick with the next
  frame index; an exception ends the run.
\<close>

fun ticks :: "anim \<Rightarrow> nat list \<Rightarrow> (error + ret list \<times> anim) option" where
  "ticks a [] = Some (Inr ([], a))"
| "ticks a (i # is) =
     bnd (nextframe a i) (\<lambda>(r, a1).
     bnd (ticks a1 is) (\<lambda>(rs, a2). Some (Inr (r # rs, a2))))"

declare marker_loop.simps [code]
declare cycle_loop.simps [code]
declare drop_loop.simps [code]

subsection \<open>Scenarios\<close>

text \<open>A frame whose scan time is \<open>s\<close> seconds after the epoch.\<close>

definition stamped :: "int \<Rightarrow> frame" where
  "stamped s = \<lparr>vals = nat s, scan_time = Some (Datetime (s * 1000000))\<rparr>"

text \<open>
  Four frames at 0, 2, 4 and 6 seconds, explicit markers at 0 and 5 seconds with
  \<open>sps = 1\<close>: \<open>drop_anim\<close> is the session as \<open>__init__\<close> leaves it, \<open>drop_ready\<close> the
  session after tick 0 (the cursor on the first frame), \<open>drop_done\<close> the session after
  tick 1 (the cursor on the last frame).
\<close>

definition drop_anim :: anim where
  "drop_anim =
     \<lparr>rd = RadarCache (map stamped [0, 2, 4, 6]) 3 True,
      startTime = Some 0, endTime = Some 6000000, robust = False,
      sps = Some 1, fps = 1 / 5, interval = 5000,
      time_markers = Some [Some 0, Some 5000000], save_count = 2,
      shown = None, out = []\<rparr>"

definition drop_ready :: anim where
  "drop_ready = drop_anim\<lparr>rd := (rd drop_anim)\<lparr>cursor := 0\<rparr>, shown := Some (stamped 0),
     out := [CurrTime (Some 0)]\<rparr>"

definition drop_done :: anim where
  "drop_done = drop_anim\<lparr>rd := (rd drop_anim)\<lparr>cursor := 3\<rparr>, shown := Some (stamped 6),
     out := [CurrTime (Some 0), Dropped (Some 2000000), Dropped (Some 4000000),
             CurrTime (Some 4000000)]\<rparr>"

text \<open>
  Five frames at 0, 1, 2, 3 and 5 seconds, \<open>sps = 2\<close> and a timer interval of one
  second: the last marker, 6 seconds, lies beyond \<open>endTime\<close>.
\<close>

definition over_anim :: anim where
  "over_anim =
     \<lparr>rd = RadarCache (map stamped [0, 1, 2, 3, 5]) 3 True,
      startTime = Some 0, endTime = Some 5000000, robust = False,
      sps = Some 2, fps = 1, interval = 1000,
      time_markers = Some [Some 0, Some 2000000, Some 4000000, Some 6000000],
      save_count = 4, shown = None, out = []\<rparr>"

text \<open>
  The end-to-end scenario: five frames at 0, 1, 2, 3 and 4 seconds, \<open>sps = 2\<close> and a
  timer interval of one second (\<open>fps = 1\<close>). \<open>e2e_anim\<close> is the session as \<open>__init__\<close>
  leaves it, \<open>e2e_tick0\<close> to \<open>e2e_tick3\<close> are the sessions after the ticks 0 to 3.
\<close>

definition e2e_files :: "frame list" where
  "e2e_files = map stamped [0, 1, 2, 3, 4]"

definition e2e_anim :: anim where
  "e2e_anim =
     \<lparr>rd = RadarCache e2e_files 3 True,
      startTime = Some 0, endTime = Some 4000000, robust = False,
      sps = Some 2, fps = 1, interval = 1000,
      time_markers = Some [Some 0, Some 2000000, Some 4000000], save_count = 3,
      shown = None, out = []\<rparr>"

definition e2e_tick0 :: anim where
  "e2e_tick0 = e2e_anim\<lparr>rd := (rd e2e_anim)\<lparr>cursor := 0\<rparr>, shown := Some (stamped 0),
     out := [CurrTime (Some 0)]\<rparr>"

definition e2e_tick1 :: anim where
  "e2e_tick1 = e2e_anim\<lparr>rd := (rd e2e_anim)\<lparr>cursor := 2\<rparr>, shown := Some (stamped 2),
     out := [CurrTime (Some 0), Dropped (Some 1000000), CurrTime (Some 1000000)]\<rparr>"

definition e2e_tick2 :: anim where
  "e2e_tick2 = e2e_anim\<lparr>rd := (rd e2e_anim)\<lparr>cursor := 3\<rparr>, shown := Some (stamped 3),
     out := [CurrTime (Some 0), Dropped (Some 1000000), CurrTime (Some 1000000),
             CurrTime (Some 2000000)]\<rparr>"

definition e2e_tick3 :: anim where
  "e2e_tick3 = e2e_anim\<lparr>rd := (rd e2e_anim)\<lparr>cursor := 1\<rparr>, shown := Some (stamped 1),
     out := [CurrTime (Some 0), Dropped (Some 1000000), CurrTime (Some 1000000),
             CurrTime (Some 2000000),
             Skipping (Some 4000000), Skipping (Some 0), CurrTime (Some 0)]\<rparr>"

text \<open>
  Three frames that are not in the order of their scan times (0, 9 and 4 seconds),
  \<open>sps = 4\<close> and a timer interval of one second. \<open>shuffled_held\<close> is the session after
  the ticks 0 and 1.
\<close>

definition shuffled_files :: "frame list" where
  "shuffled_files = map stamped [0, 9, 4]"

definition shuffled_anim :: anim where
  "shuffled_anim =
     \<lparr>rd = RadarCache shuffled_files 3 True,
      startTime = Some 0, endTime = Some 4000000, robust = False,
      sps = Some 4, fps = 1, interval = 1000,
      time_markers = Some [Some 0, Some 4000000], save_count = 2,
      shown = None, out = []\<rparr>"

definition shuffled_held :: anim where
  "shuffled_held = shuffled_anim\<lparr>rd := (rd shuffled_anim)\<lparr>cursor := 1\<rparr>,
     shown := Some (stamped 9), out := [CurrTime (Some 0), CurrTime (Some 0)]\<rparr>"

text \<open>
  Frames without a scan time. In \<open>blank_files\<close> no frame has one; in \<open>gap_files\<close> the
  second of three frames has none. \<open>gap_tick0\<close> is the session over \<open>gap_files\<close> after
  tick 0.
\<close>

definition blank_files :: "frame list" where
  "blank_files = [\<lparr>vals = 0, scan_time = None\<rparr>, \<lparr>vals = 1, scan_time = None\<rparr>]"

definition blank_anim :: anim where
  "blank_anim =
     \<lparr>rd = RadarCache blank_files 3 True,
      startTime = None, endTime = None, robust = False,
      sps = Some 1, fps = 1, interval = 1000,
      time_markers = Some [None], save_count = 1,
      shown = None, out = []\<rparr>"

definition gap_files :: "frame list" where
  "gap_files = [stamped 0, \<lparr>vals = 1, scan_time = None\<rparr>, stamped 4]"

definition gap_anim :: anim where
  "gap_anim =
     \<lparr>rd = RadarCache gap_files 3 True,
      startTime = Some 0, endTime = Some 4000000, robust = False,
      sps = Some 2, fps = 1, interval = 1000,
      time_markers = Some [Some 0, Some 2000000, Some 4000000], save_count = 3,
      shown = None, out = []\<rparr>"

definition gap_tick0 :: anim where
  "gap_tick0 = gap_anim\<lparr>rd := (rd gap_anim)\<lparr>cursor := 0\<rparr>, shown := Some (stamped 0),
     out := [CurrTime (Some 0)]\<rparr>"

text \<open>
  Sessions without markers (\<open>sps\<close> absent, no explicit markers). \<open>free_anim\<close> is the
  session that \<open>__init__\<close> makes over the five frames of the end-to-end scenario.
  \<open>plain_anim\<close> is a session of three frames whose cache is new and not cyclable.
\<close>

definition free_anim :: anim where
  "free_anim =
     \<lparr>rd = RadarCache e2e_files 3 True,
      startTime = Some 0, endTime = Some 4000000, robust = False,
      sps = None, fps = 1, interval = 1000,
      time_markers = None, save_count = 5,
      shown = None, out = []\<rparr>"

definition plain_anim :: anim where
  "plain_anim =
     \<lparr>rd = RadarCache (map stamped [0, 1, 2]) 3 False,
      startTime = Some 0, endTime = Some 2000000, robust = False,
      sps = None, fps = 1, interval = 1000,
      time_markers = None, save_count = 3,
      shown = None, out = []\<rparr>"

definition plain_done :: anim where
  "plain_done = plain_anim\<lparr>rd := (rd plain_anim)\<lparr>cursor := 2\<rparr>, shown := Some (stamped 2),
     out := [CurrTime (Some 0), CurrTime (Some 1000000), CurrTime (Some 2000000)]\<rparr>"

subsection \<open>Sessions of RadarAnim\<close>

text \<open>
  The sessions that exist: those \<open>__init__\<close> returns, and those a tick that returns
  leaves behind.
\<close>

inductive session :: "anim \<Rightarrow> bool" where
  created: "RadarAnim_init files rob sp markers ival = Some (Inr a) \<Longrightarrow> session a"
| ticked: "session a \<Longrightarrow> nextframe a i = Some (Inr (r, a')) \<Longrightarrow> session a'"

text \<open>
  What every session keeps: the cache is cyclable and three wide, it has frames, its
  cursor is new or on a frame, and \<open>startTime\<close> and \<open>endTime\<close> are the scan times of
  the first and the last frame.
\<close>

definition session_inv :: "anim \<Rightarrow> bool" where
  "session_inv a =
     (cyclable (rd a) \<and> cachewidth (rd a) = 3 \<and> frames (rd a) \<noteq> []
      \<and> - 1 \<le> cursor (rd a) \<and> cursor (rd a) < int (length (frames (rd a)))
      \<and> startTime a = get_time (frames (rd a) ! 0)
      \<and> endTime a = get_time (last (frames (rd a))))"

text \<open>
  A loop or a tick has settled when it has returned, with a session that keeps
  \<open>session_inv\<close> or with an exception other than \<open>ExhaustedError\<close>.
\<close>

definition settled :: "(error + anim) option \<Rightarrow> bool" where
  "settled m =
     (case m of None \<Rightarrow> False | Some (Inl e) \<Rightarrow> e \<noteq> ExhaustedError
      | Some (Inr a') \<Rightarrow> session_inv a')"

definition tick_ok :: "(error + ret \<times> anim) option \<Rightarrow> bool" where
  "tick_ok m =
     (case m of None \<Rightarrow> False | Some (Inl e) \<Rightarrow> e \<noteq> ExhaustedError
      | Some (Inr (x, a')) \<Rightarrow> session_inv a')"

section \<open>Properties\<close>

subsection \<open>Auxiliary facts\<close>

lemma bnd_simps:
  "bnd None f = None"
  "bnd (Some (Inl e)) f = Some (Inl e)"
  "bnd (Some (Inr x)) f = f x"
  by (simp_all add: bnd_def)

lemmas drop_unfold = drop_cond_def next_time_def peek_next_def chain_lt_lt_def skip_step_def
  cache_next_def curr_time_def curr_def

lemma drop_two:
  assumes "frames (rd a) = [f0, f1, f2, f3]"
    and "get_time f1 = Some 2000000"
    and "get_time f2 = Some 4000000" and "get_time f3 = Some 6000000"
    and "cursor (rd a) = 0" and "endTime a = Some 6000000"
  shows "drop_loop (Some 5000000) a =
    Some (Inr (a\<lparr>rd := (rd a)\<lparr>cursor := 2\<rparr>,
      out := out a @ [Dropped (Some 2000000), Dropped (Some 4000000)]\<rparr>))"
  using assms
  apply (subst drop_loop.simps)
  apply (simp add: drop_unfold)
  apply (subst drop_loop.simps)
  apply (simp add: drop_unfold)
  apply (subst drop_loop.simps)
  apply (simp add: drop_unfold)
  done

text \<open>The runs of the scenarios.\<close>

lemma drop_made:
  "RadarAnim_init (map stamped [0, 2, 4, 6]) False (Some 1) (Some [0, 5000000]) 1000
     = Some (Inr drop_anim)"
  by code_simp

lemma drop_run0: "nextframe drop_anim 0 = Some (Inr (Ims, drop_ready))"
  by code_simp

lemma drop_run1: "nextframe drop_ready 1 = Some (Inr (Ims, drop_done))"
  by code_simp

lemma e2e_made: "RadarAnim_init e2e_files False (Some 2) None 1000 = Some (Inr e2e_anim)"
  by code_simp

lemma e2e_run0: "nextframe e2e_anim 0 = Some (Inr (Ims, e2e_tick0))"
  by code_simp

lemma e2e_run1: "nextframe e2e_tick0 1 = Some (Inr (Ims, e2e_tick1))"
  by code_simp

lemma e2e_run2: "nextframe e2e_tick1 2 = Some (Inr (Ims, e2e_tick2))"
  by code_simp

lemma e2e_run3: "nextframe e2e_tick2 3 = Some (Inr (Ims, e2e_tick3))"
  by code_simp

lemma shuffled_made:
  "RadarAnim_init shuffled_files False (Some 4) None 1000 = Some (Inr shuffled_anim)"
  by code_simp

lemma shuffled_run: "ticks shuffled_anim [0, 1] = Some (Inr ([Ims, Ims], shuffled_held))"
  by code_simp

lemma blank_made: "RadarAnim_init blank_files False (Some 1) None 1000 = Some (Inr blank_anim)"
  by code_simp

lemma gap_made: "RadarAnim_init gap_files False (Some 2) None 1000 = Some (Inr gap_anim)"
  by code_simp

lemma gap_run0: "nextframe gap_anim 0 = Some (Inr (Ims, gap_tick0))"
  by code_simp

lemma free_made: "RadarAnim_init e2e_files False None None 1000 = Some (Inr free_anim)"
  by code_simp

lemma over_made:
  "RadarAnim_init (map stamped [0, 1, 2, 3, 5]) False (Some 2) None 1000 = Some (Inr over_anim)"
  by code_simp

text \<open>The marker loop with a positive step: it returns, and what it returns.\<close>

lemma upt_shift: "[1..<Suc (Suc n)] = 1 # map Suc [1..<Suc n]"
  by (simp add: upt_conv_Cons map_Suc_upt del: upt_Suc)

lemma marker_loop_grid:
  assumes "0 < ts"
  shows "\<exists>n. marker_loop ts (Some e) (Some c) acc
            = Some (Inr (acc @ map (\<lambda>k. Some (c + int k * ts)) [1..<Suc n]))
          \<and> (\<forall>k<n. c + int k * ts < e) \<and> e \<le> c + int n * ts"
proof (induction "nat (e - c)" arbitrary: c acc rule: less_induct)
  case less
  show ?case
  proof (cases "c < e")
    case False
    then have "marker_loop ts (Some e) (Some c) acc = Some (Inr acc)"
      by (subst marker_loop.simps) simp
    with False show ?thesis
      by (intro exI [of _ 0]) simp
  next
    case True
    with assms have "nat (e - (c + ts)) < nat (e - c)" by simp
    from less [OF this, of "acc @ [Some (c + ts)]"]
    obtain n where run: "marker_loop ts (Some e) (Some (c + ts)) (acc @ [Some (c + ts)])
          = Some (Inr ((acc @ [Some (c + ts)]) @ map (\<lambda>k. Some (c + ts + int k * ts)) [1..<Suc n]))"
      and below: "\<forall>k<n. c + ts + int k * ts < e" and reach: "e \<le> c + ts + int n * ts"
      by blast
    have step: "marker_loop ts (Some e) (Some c) acc
        = marker_loop ts (Some e) (Some (c + ts)) (acc @ [Some (c + ts)])"
      using True by (subst marker_loop.simps) simp
    have lists: "(acc @ [Some (c + ts)]) @ map (\<lambda>k. Some (c + ts + int k * ts)) [1..<Suc n]
        = acc @ map (\<lambda>k. Some (c + int k * ts)) [1..<Suc (Suc n)]"
      by (simp only: upt_shift) (simp add: algebra_simps comp_def)
    have "\<forall>k<Suc n. c + int k * ts < e"
    proof (intro allI impI)
      fix k assume "k < Suc n"
      show "c + int k * ts < e"
      proof (cases k)
        case 0
        with True show ?thesis by simp
      next
        case (Suc j)
        with \<open>k < Suc n\<close> below have "c + ts + int j * ts < e" by simp
        with Suc show ?thesis by (simp add: algebra_simps)
      qed
    qed
    moreover have "e \<le> c + int (Suc n) * ts"
      using reach by (simp add: algebra_simps)
    ultimately show ?thesis
      using step run lists by (intro exI [of _ "Suc n"]) simp
  qed
qed

text \<open>The marker loop with a step that is not positive never leaves a cursor before the end.\<close>

lemma marker_loop_stuck_aux:
  assumes "marker_loop ts endT cur acc = Some y"
  shows "\<forall>e c. endT = Some e \<longrightarrow> cur = Some c \<longrightarrow> ts \<le> 0 \<longrightarrow> c < e \<longrightarrow> False"
proof (rule marker_loop.raw_induct [where P = "\<lambda>t E C A r.
    \<forall>e c. E = Some e \<longrightarrow> C = Some c \<longrightarrow> t \<le> 0 \<longrightarrow> c < e \<longrightarrow> False", OF _ assms], goal_cases)
  case (1 loop t E C A r)
  show ?case
  proof (intro allI impI)
    fix e c
    assume h: "E = Some e" "C = Some c" "t \<le> 0" "c < e"
    with 1(2) have "loop t (Some e) (Some (c + t)) (A @ [Some (c + t)]) = Some r"
      by simp
    from 1(1) [OF this] h show False by simp
  qed
qed

lemma marker_loop_stuck:
  "ts \<le> 0 \<Longrightarrow> c < e \<Longrightarrow> marker_loop ts (Some e) (Some c) acc = None"
  using marker_loop_stuck_aux [of ts "Some e" "Some c" acc]
  by (cases "marker_loop ts (Some e) (Some c) acc") auto

lemma grid_list:
  fixes st ts :: int
  defines "g \<equiv> \<lambda>n. map (\<lambda>k. st + int k * ts) [0..<Suc n]"
  shows "Some st # map (\<lambda>k. Some (st + int k * ts)) [1..<Suc n] = map Some (g n)"
    and "g n \<noteq> []" and "g n ! 0 = st" and "last (g n) = st + int n * ts"
    and "length (g n) = Suc n"
    and "i < Suc n \<Longrightarrow> g n ! i = st + int i * ts"
proof -
  show "Some st # map (\<lambda>k. Some (st + int k * ts)) [1..<Suc n] = map Some (g n)"
    unfolding g_def by (simp add: upt_conv_Cons del: upt_Suc)
  show "g n \<noteq> []" unfolding g_def by simp
  show "length (g n) = Suc n" unfolding g_def by simp
  show nth: "g n ! i = st + int i * ts" if "i < Suc n" for i
    unfolding g_def using that nth_map_upt [of i "Suc n" 0 "\<lambda>k. st + int k * ts"] by simp
  from nth [of 0] show "g n ! 0 = st" by simp
  show "last (g n) = st + int n * ts"
    unfolding g_def by (simp add: last_map del: upt_Suc)
qed

lemma timedelta_nonneg: "0 \<le> q \<Longrightarrow> 0 \<le> timedelta q"
  by (simp add: timedelta_def Let_def)

lemma new_cache_times:
  assumes "files \<noteq> []"
  shows "curr_time (RadarCache files w True) = Inr (get_time (files ! 0))"
    and "prev_time (RadarCache files w True) = Inr (get_time (last files))"
  using assms
  by (simp_all add: curr_time_def prev_time_def curr_def peek_prev_def RadarCache_def)

subsection \<open>Explicit markers need two entries and a rate (C2)\<close>

text \<open>
  Claim C2 states that the construction fails with \<open>ConfigError\<close> when the explicit
  marker list has fewer than two entries or \<open>sps\<close> is absent. \<open>__init__\<close> checks
  neither condition and no statement of the program raises \<open>ConfigError\<close>: with a
  single marker the construction ends in the \<open>ZeroDivisionError\<close> of the division
  that computes \<open>fps\<close>.
\<close>

theorem explicit_markers_counterexample:
  "RadarAnim_init (map stamped [0, 2, 4, 6]) False (Some 1) (Some [5000000]) 1000
     = Some (Inl ZeroDivisionError)
   \<and> RadarAnim_init (map stamped [0, 2, 4, 6]) False (Some 1) (Some [5000000]) 1000
     \<noteq> Some (Inl ConfigError)"
proof -
  have "RadarAnim_init (map stamped [0, 2, 4, 6]) False (Some 1) (Some [5000000]) 1000
     = Some (Inl ZeroDivisionError)"
    by code_simp
  then show ?thesis by simp
qed

text \<open>
  Claim C2 as the code has it. Over a list of files that is not empty, when the explicit
  marker list has fewer than two entries or \<open>sps\<close> is absent, \<open>__init__\<close> raises, so no
  session is started. The exception is the one of the failing operation in the
  computation of \<open>fps\<close> (lines 209 to 211): \<open>IndexError\<close> for the empty list
  (\<open>time_markers[-1]\<close>), otherwise \<open>TypeError\<close> for the division by an absent \<open>sps\<close>,
  otherwise, for the single marker, \<open>ZeroDivisionError\<close> (the time span is zero).
\<close>

theorem explicit_markers_checked:
  assumes "files \<noteq> []" and "length tm < 2 \<or> sp = None"
  shows "RadarAnim_init files rob sp (Some tm) ival =
    Some (Inl (if tm = [] then IndexError
               else if sp = None then TypeError else ZeroDivisionError))"
proof (cases "tm = [] \<or> sp = None")
  case True
  with assms(1) show ?thesis
    by (auto simp add: RadarAnim_init_def new_cache_times bnd_simps)
next
  case False
  with assms(2) obtain x s where tm: "tm = [x]" and sp: "sp = Some s"
    by (cases tm) auto
  show ?thesis
    using assms(1)
    by (simp add: tm sp RadarAnim_init_def new_cache_times bnd_simps py_div_def
        total_seconds_def)
qed

theorem explicit_markers_checked_witness:
  "map stamped [0, 2, 4, 6] \<noteq> []
   \<and> RadarAnim_init (map stamped [0, 2, 4, 6]) False (Some 1) (Some [5000000]) 1000
     = Some (Inl ZeroDivisionError)
   \<and> RadarAnim_init (map stamped [0, 2, 4, 6]) False None (Some [5000000, 7000000]) 1000
     = Some (Inl TypeError)
   \<and> RadarAnim_init (map stamped [0, 2, 4, 6]) False None (Some [5000000]) 1000
     = Some (Inl TypeError)
   \<and> RadarAnim_init (map stamped [0, 2, 4, 6]) False (Some 1) (Some []) 1000
     = Some (Inl IndexError)"
proof -
  have files: "map stamped [0, 2, 4, 6] \<noteq> []" by simp
  have one: "length [5000000 :: int] < 2 \<or> Some (1 :: rat) = None" by simp
  have two: "length [5000000 :: int, 7000000] < 2 \<or> (None :: rat option) = None" by simp
  have three: "length [5000000 :: int] < 2 \<or> (None :: rat option) = None" by simp
  have four: "length ([] :: int list) < 2 \<or> Some (1 :: rat) = None" by simp
  from explicit_markers_checked [OF files one, of False 1000]
    explicit_markers_checked [OF files two, of False 1000]
    explicit_markers_checked [OF files three, of False 1000]
    explicit_markers_checked [OF files four, of False 1000]
  show ?thesis by simp
qed

subsection \<open>Dropping frames to catch up (C3)\<close>

text \<open>
  Claim C3. The cache holds frames at 0, 2, 4 and 6 seconds (so \<open>endTime\<close> is 6
  seconds), the cursor is on the first and the marker of the tick is 5 seconds. Then
  the tick drops exactly two frames, moving the cursor over the frames at 2 and 4
  seconds without drawing (two \<open>Dropped\<close> lines), and then advances once with a render
  signal: the frame drawn is the one at 6 seconds. The tick is one that does not start
  a new cycle.
\<close>

theorem drop_then_advance:
  assumes "frames (rd a) = [f0, f1, f2, f3]"
    and "get_time f0 = Some 0" and "get_time f1 = Some 2000000"
    and "get_time f2 = Some 4000000" and "get_time f3 = Some 6000000"
    and "cursor (rd a) = 0" and "endTime a = Some 6000000"
    and "time_markers a = Some ms" and "0 < save_count a"
    and "i mod save_count a < length ms"
    and "ms ! (i mod save_count a) = Some 5000000"
    and "i = 0 \<or> 0 < i mod save_count a"
  shows "nextframe a i =
    Some (Inr (Ims, a\<lparr>rd := (rd a)\<lparr>cursor := 3\<rparr>, shown := Some f3,
      out := out a @ [Dropped (Some 2000000), Dropped (Some 4000000), CurrTime (Some 4000000)]\<rparr>))"
proof -
  have drops: "drop_loop (Some 5000000) a =
    Some (Inr (a\<lparr>rd := (rd a)\<lparr>cursor := 2\<rparr>,
      out := out a @ [Dropped (Some 2000000), Dropped (Some 4000000)]\<rparr>))"
    using assms by (intro drop_two) auto
  from assms(12) show ?thesis
  proof
    assume "i = 0"
    with assms(1-11) show ?thesis
      by (simp add: nextframe_def Let_def bnd_simps drops curr_time_def curr_def
          advance_anim_def cache_next_def)
  next
    assume "0 < i mod save_count a"
    with assms(1-11) show ?thesis
      by (simp add: nextframe_def Let_def bnd_simps drops curr_time_def curr_def
          advance_anim_def cache_next_def)
  qed
qed

theorem drop_then_advance_witness:
  "RadarAnim_init (map stamped [0, 2, 4, 6]) False (Some 1) (Some [0, 5000000]) 1000
     = Some (Inr drop_anim)
   \<and> nextframe drop_anim 0 = Some (Inr (Ims, drop_ready))
   \<and> cursor (rd drop_ready) = 0
   \<and> nextframe drop_ready 1 =
       Some (Inr (Ims, drop_ready\<lparr>rd := (rd drop_ready)\<lparr>cursor := 3\<rparr>, shown := Some (stamped 6),
         out := [CurrTime (Some 0),
                 Dropped (Some 2000000), Dropped (Some 4000000), CurrTime (Some 4000000)]\<rparr>))"
proof -
  have "nextframe drop_ready 1 =
    Some (Inr (Ims, drop_ready\<lparr>rd := (rd drop_ready)\<lparr>cursor := 3\<rparr>, shown := Some (stamped 6),
      out := out drop_ready @
        [Dropped (Some 2000000), Dropped (Some 4000000), CurrTime (Some 4000000)]\<rparr>))"
    by (rule drop_then_advance [where ?f0.0 = "stamped 0" and ?f1.0 = "stamped 2"
          and ?f2.0 = "stamped 4" and ms = "[Some 0, Some 5000000]"])
      (simp_all add: drop_ready_def drop_anim_def RadarCache_def stamped_def get_time_def)
  with drop_made drop_run0 show ?thesis
    by (simp add: drop_ready_def drop_anim_def)
qed

subsection \<open>Hold on overrun (C7)\<close>

text \<open>
  Claim C7. In synchronised mode, when the marker of the tick,
  \<open>time_markers[frameindex % save_count]\<close>, is later than \<open>endTime\<close>, the tick holds:
  \<open>nextframe\<close> returns \<open>None\<close> (no render signal) and leaves the session, the cache
  cursor included, as it was, whatever the state of the cache.
\<close>

theorem hold_on_overrun:
  assumes "time_markers a = Some ms" and "0 < save_count a"
    and "frameindex mod save_count a < length ms"
    and "ms ! (frameindex mod save_count a) = Some frametime"
    and "endTime a = Some e" and "e < frametime"
  shows "nextframe a frameindex = Some (Inr (NoRender, a))"
  using assms by (simp add: nextframe_def bnd_simps)

theorem hold_on_overrun_witness:
  "RadarAnim_init (map stamped [0, 1, 2, 3, 5]) False (Some 2) None 1000 = Some (Inr over_anim)
   \<and> nextframe over_anim 3 = Some (Inr (NoRender, over_anim))
   \<and> nextframe over_anim 7 = Some (Inr (NoRender, over_anim))"
proof -
  have "nextframe over_anim 3 = Some (Inr (NoRender, over_anim))"
    by (rule hold_on_overrun [where frametime = 6000000 and e = 5000000
          and ms = "[Some 0, Some 2000000, Some 4000000, Some 6000000]"])
      (simp_all add: over_anim_def)
  moreover have "nextframe over_anim 7 = Some (Inr (NoRender, over_anim))"
    by (rule hold_on_overrun [where frametime = 6000000 and e = 5000000
          and ms = "[Some 0, Some 2000000, Some 4000000, Some 6000000]"])
      (simp_all add: over_anim_def)
  ultimately show ?thesis using over_made by simp
qed

subsection \<open>The end-to-end scenario (C1)\<close>

text \<open>
  Claim C1 states that the scenario of five frames at 0 to 4 seconds, \<open>sps = 2\<close>,
  \<open>fps = 1\<close> yields the markers 0, 2, 4, 6 seconds and \<open>save_count = 4\<close>, that tick 2
  draws the frame at 4 seconds and that tick 3 holds. It does not. The loop of
  \<open>__init__\<close> stops as soon as the last marker is not before \<open>endTime\<close>
  (\<open>while currTime < self.endTime\<close>), and the marker at 4 seconds is \<open>endTime\<close>: there
  are three markers. At tick 2 the cursor is on the frame at 2 seconds and the marker
  is \<open>endTime\<close>, so the dropping loop, whose guard ends in \<open>frametime < self.endTime\<close>,
  drops nothing and the advance draws the frame at 3 seconds. Tick 3 takes the marker
  \<open>3 % 3 = 0\<close>, which is 0 seconds, and draws.
\<close>

theorem e2e_markers_counterexample:
  "RadarAnim_init e2e_files False (Some 2) None 1000 = Some (Inr e2e_anim)
   \<and> startTime e2e_anim = Some 0 \<and> endTime e2e_anim = Some 4000000
   \<and> time_markers e2e_anim \<noteq> Some [Some 0, Some 2000000, Some 4000000, Some 6000000]
   \<and> save_count e2e_anim \<noteq> 4
   \<and> ticks e2e_anim [0, 1] = Some (Inr ([Ims, Ims], e2e_tick1))
   \<and> shown e2e_tick1 = Some (stamped 2)
   \<and> nextframe e2e_tick1 2 = Some (Inr (Ims, e2e_tick2))
   \<and> shown e2e_tick2 = Some (stamped 3)
   \<and> stamped 3 \<noteq> stamped 4
   \<and> nextframe e2e_tick2 3 \<noteq> Some (Inr (NoRender, e2e_tick2))"
proof -
  have "ticks e2e_anim [0, 1] = Some (Inr ([Ims, Ims], e2e_tick1))"
    by code_simp
  moreover have "stamped 3 \<noteq> stamped 4"
    by (simp add: stamped_def)
  ultimately show ?thesis
    using e2e_made e2e_run2 e2e_run3
    by (simp add: e2e_anim_def e2e_tick1_def e2e_tick2_def)
qed

text \<open>
  Claim C1 as the code has it. The markers are 0, 2 and 4 seconds and \<open>save_count\<close> is
  3. The ticks 0, 1 and 2 each advance with a render signal: tick 0 draws the frame at
  0 seconds, tick 1 drops the frame at 1 second and draws the frame at 2 seconds,
  tick 2 draws the frame at 3 seconds. Tick 3 starts a new cycle
  (\<open>3 % save_count = 0\<close>, marker 0 seconds): it skips ahead over the frame at 4 seconds
  to the frame at 0 seconds, and advances, drawing the frame at 1 second.
\<close>

theorem e2e_scenario:
  "RadarAnim_init e2e_files False (Some 2) None 1000 = Some (Inr e2e_anim)
   \<and> time_markers e2e_anim = Some [Some 0, Some 2000000, Some 4000000]
   \<and> save_count e2e_anim = 3
   \<and> nextframe e2e_anim 0 = Some (Inr (Ims, e2e_tick0))
   \<and> shown e2e_tick0 = Some (stamped 0)
   \<and> out e2e_tick0 = [CurrTime (Some 0)]
   \<and> nextframe e2e_tick0 1 = Some (Inr (Ims, e2e_tick1))
   \<and> shown e2e_tick1 = Some (stamped 2)
   \<and> out e2e_tick1 = out e2e_tick0 @ [Dropped (Some 1000000), CurrTime (Some 1000000)]
   \<and> nextframe e2e_tick1 2 = Some (Inr (Ims, e2e_tick2))
   \<and> shown e2e_tick2 = Some (stamped 3)
   \<and> out e2e_tick2 = out e2e_tick1 @ [CurrTime (Some 2000000)]
   \<and> nextframe e2e_tick2 3 = Some (Inr (Ims, e2e_tick3))
   \<and> shown e2e_tick3 = Some (stamped 1)
   \<and> out e2e_tick3 = out e2e_tick2
       @ [Skipping (Some 4000000), Skipping (Some 0), CurrTime (Some 0)]"
  using e2e_made e2e_run0 e2e_run1 e2e_run2 e2e_run3
  by (simp add: e2e_anim_def e2e_tick0_def e2e_tick1_def e2e_tick2_def e2e_tick3_def)

subsection \<open>Rate-derived markers (C4)\<close>

text \<open>
  Claim C4 ends: the sequence includes the first point past \<open>endTime\<close>. When
  \<open>endTime\<close> lies on the grid of the markers, the last marker is \<open>endTime\<close> itself and
  no marker is past it.
\<close>

theorem marker_end_counterexample:
  "rate_markers 2 1 (Some 0) (Some 4000000) = Some (Inr [Some 0, Some 2000000, Some 4000000])
   \<and> py_gt (last [Some 0, Some 2000000, Some 4000000]) (Some 4000000) = Inr False"
proof -
  have "rate_markers 2 1 (Some 0) (Some 4000000)
      = Some (Inr [Some 0, Some 2000000, Some 4000000])"
    by code_simp
  then show ?thesis by simp
qed

text \<open>
  Claim C4 as the code has it. With \<open>timestep = timedelta(0, sps / fps)\<close> positive,
  the generation returns; the first marker is \<open>startTime\<close>; each further marker is the
  one before it plus \<open>timestep\<close>, and is generated only while the one before it is
  earlier than \<open>endTime\<close>; the last marker is not earlier than \<open>endTime\<close>. So the last
  marker is the first grid point at or past \<open>endTime\<close>.
\<close>

theorem rate_markers_grid:
  assumes "f \<noteq> 0" and "0 < timedelta (s / f)"
  shows "\<exists>ms. rate_markers s f (Some st) (Some en) = Some (Inr (map Some ms))
      \<and> ms \<noteq> [] \<and> ms ! 0 = st
      \<and> (\<forall>i. Suc i < length ms \<longrightarrow> ms ! Suc i = ms ! i + timedelta (s / f) \<and> ms ! i < en)
      \<and> en \<le> last ms"
proof -
  define ts where "ts = timedelta (s / f)"
  with assms have "0 < ts" by simp
  from marker_loop_grid [OF this, of en st "[Some st]"]
  obtain n where run: "marker_loop ts (Some en) (Some st) [Some st]
        = Some (Inr ([Some st] @ map (\<lambda>k. Some (st + int k * ts)) [1..<Suc n]))"
    and below: "\<forall>k<n. st + int k * ts < en" and reach: "en \<le> st + int n * ts"
    by blast
  define ms where "ms = map (\<lambda>k. st + int k * ts) [0..<Suc n]"
  have "rate_markers s f (Some st) (Some en) = Some (Inr (map Some ms))"
    using assms(1) run grid_list(1) [of st ts n]
    by (simp add: rate_markers_def py_div_def bnd_simps ts_def ms_def)
  moreover have "ms \<noteq> []" "ms ! 0 = st" "last ms = st + int n * ts"
    unfolding ms_def by (rule grid_list)+
  moreover have "ms ! Suc i = ms ! i + ts \<and> ms ! i < en" if "Suc i < length ms" for i
  proof -
    from that have i: "i < n" by (simp add: ms_def)
    then have "ms ! Suc i = st + int (Suc i) * ts" "ms ! i = st + int i * ts"
      unfolding ms_def by (intro grid_list(6); simp)+
    with below i show ?thesis by (simp add: algebra_simps)
  qed
  ultimately show ?thesis
    using reach unfolding ts_def by (intro exI [of _ ms]) simp
qed

theorem rate_markers_grid_witness:
  "(2 :: rat) \<noteq> 0 \<and> 0 < timedelta (3 / 2)
   \<and> rate_markers 3 2 (Some 1000000) (Some 5000000)
       = Some (Inr (map Some [1000000, 2500000, 4000000, 5500000]))
   \<and> (\<exists>ms. rate_markers 3 2 (Some 1000000) (Some 5000000) = Some (Inr (map Some ms))
      \<and> ms \<noteq> [] \<and> ms ! 0 = 1000000
      \<and> (\<forall>i. Suc i < length ms \<longrightarrow> ms ! Suc i = ms ! i + timedelta (3 / 2) \<and> ms ! i < 5000000)
      \<and> 5000000 \<le> last ms)"
proof -
  have nz: "(2 :: rat) \<noteq> 0" by simp
  have pos: "0 < timedelta (3 / 2)" by code_simp
  have ev: "rate_markers 3 2 (Some 1000000) (Some 5000000)
       = Some (Inr (map Some [1000000, 2500000, 4000000, 5500000]))"
    by code_simp
  from rate_markers_grid [OF nz pos, of 1000000 5000000] nz pos ev
  show ?thesis by blast
qed

subsection \<open>Marker monotonicity (C9)\<close>

text \<open>
  Claim C9. For positive \<open>sps\<close> and \<open>fps\<close>, every marker sequence that the rate-derived
  generation returns is strictly increasing (in Python's own order of the markers).
  The generation returns whenever the time step is positive, that is, unless
  \<open>sps / fps\<close> rounds to zero microseconds.
\<close>

theorem markers_strictly_increasing:
  assumes "0 < s" and "0 < f"
  shows "(0 < timedelta (s / f) \<longrightarrow>
            (\<exists>ms. rate_markers s f (Some st) (Some en) = Some (Inr ms)))
       \<and> (\<forall>ms. rate_markers s f startT endT = Some (Inr ms) \<longrightarrow>
            sorted_wrt (\<lambda>x y. py_lt x y = Inr True) ms)"
proof (intro conjI impI allI)
  assume pos: "0 < timedelta (s / f)"
  from marker_loop_grid [OF pos, of en st "[Some st]"] assms
  show "\<exists>ms. rate_markers s f (Some st) (Some en) = Some (Inr ms)"
    by (auto simp add: rate_markers_def py_div_def bnd_simps)
next
  fix ms
  assume ret: "rate_markers s f startT endT = Some (Inr ms)"
  define ts where "ts = timedelta (s / f)"
  from assms have nn: "0 \<le> ts"
    unfolding ts_def by (intro timedelta_nonneg) simp
  from ret assms have loop: "marker_loop ts endT startT [startT] = Some (Inr ms)"
    by (simp add: rate_markers_def py_div_def bnd_simps ts_def)
  show "sorted_wrt (\<lambda>x y. py_lt x y = Inr True) ms"
  proof (cases startT)
    case None
    with loop have "ms = [None]"
      by (subst (asm) marker_loop.simps) (cases endT; simp)
    then show ?thesis by simp
  next
    case st: (Some a)
    show ?thesis
    proof (cases endT)
      case None
      with loop st show ?thesis
        by (subst (asm) marker_loop.simps) simp
    next
      case en: (Some b)
      show ?thesis
      proof (cases "0 < ts")
        case True
        from marker_loop_grid [OF True, of b a "[Some a]"] loop st en
        obtain n where ms: "ms = [Some a] @ map (\<lambda>k. Some (a + int k * ts)) [1..<Suc n]"
          by auto
        have "ms = map Some (map (\<lambda>k. a + int k * ts) [0..<Suc n])"
          using grid_list(1) [of a ts n] by (simp add: ms)
        moreover have "sorted_wrt (<) (map (\<lambda>k. a + int k * ts) [0..<Suc n])"
          using True by (simp add: sorted_wrt_map del: upt_Suc)
        ultimately show ?thesis
          by (simp add: sorted_wrt_map del: upt_Suc)
      next
        case False
        with nn have zero: "ts = 0" by simp
        show ?thesis
        proof (cases "a < b")
          case True
          from marker_loop_stuck [OF _ True, of ts "[Some a]"] zero loop st en
          show ?thesis by simp
        next
          case False
          with loop st en have "ms = [Some a]"
            by (subst (asm) marker_loop.simps) simp
          then show ?thesis by simp
        qed
      qed
    qed
  qed
qed

theorem markers_strictly_increasing_witness:
  "(0 :: rat) < 2 \<and> (0 :: rat) < 1
   \<and> rate_markers 2 1 (Some 0) (Some 5000000)
       = Some (Inr [Some 0, Some 2000000, Some 4000000, Some 6000000])
   \<and> sorted_wrt (\<lambda>x y. py_lt x y = Inr True) [Some 0, Some 2000000, Some 4000000, Some 6000000]"
proof -
  have s: "(0 :: rat) < 2" and f: "(0 :: rat) < 1" by simp_all
  have ev: "rate_markers 2 1 (Some 0) (Some 5000000)
       = Some (Inr [Some 0, Some 2000000, Some 4000000, Some 6000000])"
    by code_simp
  from markers_strictly_increasing [OF s f, of 0 5000000 "Some 0" "Some 5000000"] ev
  have "sorted_wrt (\<lambda>x y. py_lt x y = Inr True) [Some 0, Some 2000000, Some 4000000, Some 6000000]"
    by blast
  with s f ev show ?thesis by blast
qed

end
